theory Spec2Isabelle
  imports Main "HOL-Library.AList"
begin


section \<open>Data model\<close>

text \<open>
  The PSI response is the JSON document parsed into Python values. Numbers are kept
  opaque (type parameter \<open>'n\<close>): the program never computes with them.
  A dictionary is an association list read with \<open>map_of\<close>.
\<close>

datatype 'n json =
    JNone
  | JBool bool
  | JNum 'n
  | JStr string
  | JList "'n json list"
  | JDict "(string \<times> 'n json) list"

text \<open>
  The exceptions the program can meet. \<open>HttpError\<close> carries \<open>status_code\<close> and
  \<open>error_details\<close>; \<open>OtherError\<close> is any exception class that derives from neither
  \<open>ValueError\<close> nor \<open>RuntimeError\<close> (nor from the classes above).
\<close>

datatype exn =
    KeyError string
  | TypeError
  | ValueError
  | RuntimeError string
  | HttpError int string
  | OtherError string

record datetime =
  year :: nat
  month :: nat
  day :: nat
  hour :: nat
  minute :: nat
  second :: nat
  microsecond :: nat

text \<open>A cell of the extracted row: the parsed timestamp, or a value of the response.\<close>

datatype 'n cell = Date datetime | Val "'n json"

type_synonym 'n row = "(string \<times> 'n cell) list"

section \<open>Raising and sequencing\<close>

definition bind_exn :: "exn + 'a \<Rightarrow> ('a \<Rightarrow> exn + 'b) \<Rightarrow> exn + 'b" where
  "bind_exn m f = (case m of Inl e \<Rightarrow> Inl e | Inr x \<Rightarrow> f x)"

text \<open>
  \<open>obj[key]\<close> with a string key: a dictionary raises \<open>KeyError\<close> on a missing key;
  \<open>None\<close>, booleans and numbers are not subscriptable, lists and strings refuse a
  string index: all of these raise \<open>TypeError\<close>.
\<close>

fun getitem :: "'n json \<Rightarrow> string \<Rightarrow> exn + 'n json" where
  "getitem (JDict kvs) k = (case map_of kvs k of None \<Rightarrow> Inl (KeyError k) | Some v \<Rightarrow> Inr v)"
| "getitem JNone k = Inl TypeError"
| "getitem (JBool b) k = Inl TypeError"
| "getitem (JNum n) k = Inl TypeError"
| "getitem (JStr s) k = Inl TypeError"
| "getitem (JList xs) k = Inl TypeError"

section \<open>extract_audits\<close>

text \<open>The dictionary \<open>audits\<close> of \<open>extract_audits\<close>, in its insertion order.\<close>

definition audits :: "(string \<times> string) list" where
  "audits =
    [(''speed-index'', ''speed_index''),
     (''first-contentful-paint'', ''first_contentful_paint''),
     (''first-meaningful-paint'', ''first_meaningful_paint''),
     (''server-response-time'', ''server_response_time''),
     (''network-server-latency'', ''network_server_latency''),
     (''cumulative-layout-shift'', ''cumulative_layout_shift''),
     (''interactive'', ''interactive''),
     (''largest-contentful-paint'', ''largest_contentful_paint''),
     (''total-blocking-time'', ''total_blocking_time''),
     (''first-cpu-idle'', ''first_cpu_idle''),
     (''max-potential-fid'', ''max_potential_fid''),
     (''total-byte-weight'', ''total_byte_weight''),
     (''estimated-input-latency'', ''estimated_input_latency'')]"

text \<open>
  \<open>datetime.strptime(v, '%Y-%m-%dT%H:%M:%S.%fZ')\<close>. The library parser at this format
  is the parameter \<open>sp\<close>; a first argument that is not a string raises \<open>TypeError\<close>.
\<close>

definition datetime_strptime :: "(string \<Rightarrow> exn + datetime) \<Rightarrow> 'n json \<Rightarrow> exn + datetime" where
  "datetime_strptime sp v = (case v of JStr s \<Rightarrow> sp s | _ \<Rightarrow> Inl TypeError)"

text \<open>
  The loop \<open>for a in audits\<close>, over the keys still to visit. The right-hand side
  \<open>psi_json['lighthouseResult']['audits'][a]['numericValue']\<close> is evaluated first,
  then \<open>audits[a]\<close>, then the store into \<open>to_return\<close>.
\<close>

fun extract_loop :: "string list \<Rightarrow> 'n json \<Rightarrow> 'n row \<Rightarrow> exn + 'n row" where
  "extract_loop [] psi_json to_return = Inr to_return"
| "extract_loop (a # rest) psi_json to_return =
     bind_exn (getitem psi_json ''lighthouseResult'') (\<lambda>lr.
     bind_exn (getitem lr ''audits'') (\<lambda>au.
     bind_exn (getitem au a) (\<lambda>m.
     bind_exn (getitem m ''numericValue'') (\<lambda>v.
     (case map_of audits a of
        None \<Rightarrow> Inl (KeyError a)
      | Some out \<Rightarrow> extract_loop rest psi_json (AList.update out (Val v) to_return))))))"

definition extract_audits :: "(string \<Rightarrow> exn + datetime) \<Rightarrow> 'n json \<Rightarrow> exn + 'n row" where
  "extract_audits sp psi_json =
     bind_exn (getitem psi_json ''analysisUTCTimestamp'') (\<lambda>ts.
     bind_exn (datetime_strptime sp ts) (\<lambda>d.
     bind_exn (getitem psi_json ''lighthouseResult'') (\<lambda>lr.
     bind_exn (getitem lr ''finalUrl'') (\<lambda>u.
     extract_loop (map fst audits) psi_json
       (AList.update ''url'' (Val u) (AList.update ''date'' (Date d) []))))))"

text \<open>The fifteen keys of a row, in the order in which \<open>extract_audits\<close> stores them.\<close>

definition row_keys :: "string list" where
  "row_keys = ''date'' # ''url'' # map snd audits"


section \<open>The external services\<close>

text \<open>
  The request that \<open>get_psi_audit\<close> builds with \<open>runpagespeed\<close>.
\<close>

record psi_request =
  url :: string
  category :: string
  strategy :: string

text \<open>
  What the program calls and does not define, taken as parameters:
  \<^item> \<open>strptime\<close>: \<open>datetime.strptime\<close> at the format \<open>'%Y-%m-%dT%H:%M:%S.%fZ'\<close>;
  \<^item> \<open>execute\<close>: \<open>psi_request.execute()\<close>, the remote audit call;
  \<^item> \<open>get_table\<close> and \<open>insert_rows\<close>: the two calls on the BigQuery client, over the
    state \<open>'w\<close> of the warehouse, with table handles \<open>'h\<close> and row errors \<open>'e\<close>;
  \<^item> \<open>str_errors\<close>: Python's \<open>str\<close> of the returned error list, as the f-string
    formats it.
  Building the two clients (\<open>build\<close>, \<open>bigquery.Client()\<close>) is process set-up and is
  taken to succeed.
\<close>

record ('n, 'e, 'h, 'w) services =
  strptime :: "string \<Rightarrow> exn + datetime"
  execute :: "psi_request \<Rightarrow> exn + 'n json"
  get_table :: "string \<Rightarrow> 'w \<Rightarrow> exn + 'h"
  insert_rows :: "'h \<Rightarrow> 'n row list \<Rightarrow> 'w \<Rightarrow> (exn + 'e list) \<times> 'w"
  str_errors :: "'e list \<Rightarrow> string"

text \<open>The two calls of \<open>logging.exception\<close> in the program.\<close>

datatype log_record =
    LogPsiError int string
  | LogException exn

text \<open>
  The state a request runs in: \<open>os.environ\<close>, the records logged so far and the
  warehouse.
\<close>

record 'w world =
  environ :: "(string \<times> string) list"
  logged :: "log_record list"
  warehouse :: "'w"

text \<open>\<open>flask.render_template(template, state=...)\<close>.\<close>

datatype response = Rendered string "string option"

definition render_template :: "string \<Rightarrow> string option \<Rightarrow> response" where
  "render_template template state = Rendered template state"

section \<open>get_psi_audit\<close>

text \<open>
  \<open>psi_response\<close> starts as \<open>None\<close>; an \<open>HttpError\<close> of \<open>execute\<close> is logged and
  leaves it so; any other exception propagates. The \<open>finally\<close> clause only closes
  the service.
\<close>

definition get_psi_audit ::
  "('n, 'e, 'h, 'w) services \<Rightarrow> string \<Rightarrow> 'w world \<Rightarrow> (exn + 'n json) \<times> 'w world" where
  "get_psi_audit svc test_url w =
     (case execute svc \<lparr>url = test_url, category = ''PERFORMANCE'', strategy = ''MOBILE''\<rparr> of
        Inr psi_response \<Rightarrow> (Inr psi_response, w)
      | Inl (HttpError status_code error_details) \<Rightarrow>
          (Inr JNone, w\<lparr>logged := logged w @ [LogPsiError status_code error_details]\<rparr>)
      | Inl e \<Rightarrow> (Inl e, w))"

section \<open>insert_audits\<close>

definition insert_audits ::
  "('n, 'e, 'h, 'w) services \<Rightarrow> string \<Rightarrow> 'n row \<Rightarrow> 'w world \<Rightarrow> (exn + unit) \<times> 'w world" where
  "insert_audits svc table audit_row w =
     (case map_of (environ w) ''GOOGLE_CLOUD_PROJECT'' of
        None \<Rightarrow> (Inl (KeyError ''GOOGLE_CLOUD_PROJECT''), w)
      | Some project_name \<Rightarrow>
          (case get_table svc (project_name @ ''.'' @ table) (warehouse w) of
             Inl e \<Rightarrow> (Inl e, w)
           | Inr bq_table \<Rightarrow>
               (case insert_rows svc bq_table [audit_row] (warehouse w) of
                  (Inl e, wh) \<Rightarrow> (Inl e, w\<lparr>warehouse := wh\<rparr>)
                | (Inr errors, wh) \<Rightarrow>
                    if errors \<noteq> []
                    then (Inl (RuntimeError
                            (''Failed to write all rows to bigquery: '' @ str_errors svc errors @ ''.'')),
                          w\<lparr>warehouse := wh\<rparr>)
                    else (Inr (), w\<lparr>warehouse := wh\<rparr>))))"

section \<open>The request handlers\<close>

definition index_page :: response where
  "index_page = render_template ''index.html'' None"

text \<open>The clause \<open>except (ValueError, RuntimeError)\<close>.\<close>

fun is_ValueError_or_RuntimeError :: "exn \<Rightarrow> bool" where
  "is_ValueError_or_RuntimeError ValueError = True"
| "is_ValueError_or_RuntimeError (RuntimeError msg) = True"
| "is_ValueError_or_RuntimeError (KeyError k) = False"
| "is_ValueError_or_RuntimeError TypeError = False"
| "is_ValueError_or_RuntimeError (HttpError status_code error_details) = False"
| "is_ValueError_or_RuntimeError (OtherError name) = False"

text \<open>
  \<open>form\<close> is \<open>flask.request.form\<close>; a missing field raises (Flask's
  \<open>BadRequestKeyError\<close>, a \<open>KeyError\<close>). Only the call of \<open>insert_audits\<close> is inside
  the \<open>try\<close>.
\<close>

definition submit_test ::
  "('n, 'e, 'h, 'w) services \<Rightarrow> (string \<times> string) list \<Rightarrow> 'w world \<Rightarrow> (exn + response) \<times> 'w world" where
  "submit_test svc form w =
     (case map_of form ''test_url'' of
        None \<Rightarrow> (Inl (KeyError ''test_url''), w)
      | Some test_url \<Rightarrow>
          (case get_psi_audit svc test_url w of
             (Inl e, w1) \<Rightarrow> (Inl e, w1)
           | (Inr psi_object, w1) \<Rightarrow>
               (case extract_audits (strptime svc) psi_object of
                  Inl e \<Rightarrow> (Inl e, w1)
                | Inr audit_row \<Rightarrow>
                    (case map_of (environ w1) ''BIGQUERY_TABLE'' of
                       None \<Rightarrow> (Inl (KeyError ''BIGQUERY_TABLE''), w1)
                     | Some bq_table \<Rightarrow>
                         (case insert_audits svc bq_table audit_row w1 of
                            (Inl err, w2) \<Rightarrow>
                              if is_ValueError_or_RuntimeError err
                              then (Inr (render_template ''index.html'' (Some ''failure'')),
                                    w2\<lparr>logged := logged w2 @ [LogException err]\<rparr>)
                              else (Inl err, w2)
                          | (Inr u, w2) \<Rightarrow>
                              (Inr (render_template ''index.html'' (Some ''success'')), w2))))))"

section \<open>Paths into a response\<close>

text \<open>
  What the specification calls a field present at a nesting level: following the keys
  of a path through dictionaries reaches a value.
\<close>

fun lookup_path :: "'n json \<Rightarrow> string list \<Rightarrow> 'n json option" where
  "lookup_path j [] = Some j"
| "lookup_path (JDict kvs) (k # ks) =
     (case map_of kvs k of None \<Rightarrow> None | Some v \<Rightarrow> lookup_path v ks)"
| "lookup_path j (k # ks) = None"

definition metric_path :: "string \<Rightarrow> string list" where
  "metric_path a = [''lighthouseResult'', ''audits'', a, ''numericValue'']"

text \<open>The fifteen fields a response is required to have.\<close>

definition required_paths :: "string list list" where
  "required_paths =
     [''analysisUTCTimestamp''] # [''lighthouseResult'', ''finalUrl''] # map (metric_path \<circ> fst) audits"

text \<open>
  A complete, well-formed report: the timestamp is a string that the parser accepts and
  every required field is present.
\<close>

definition complete_report :: "(string \<Rightarrow> exn + datetime) \<Rightarrow> 'n json \<Rightarrow> bool" where
  "complete_report sp psi \<longleftrightarrow>
     (case lookup_path psi [''analysisUTCTimestamp''] of
        Some (JStr ts) \<Rightarrow> (case sp ts of Inr d \<Rightarrow> True | Inl e \<Rightarrow> False)
      | _ \<Rightarrow> False)
     \<and> list_all (\<lambda>p. lookup_path psi p \<noteq> None) required_paths"

section \<open>Sample inputs\<close>

text \<open>
  A complete report: every audit carries its identifier and, as its
  \<open>numericValue\<close>, the length of the identifier.
\<close>

definition sample_audit :: "string \<Rightarrow> nat json" where
  "sample_audit a = JDict [(''id'', JStr a), (''numericValue'', JNum (length a))]"

text \<open>The complete report whose timestamp field is \<open>ts\<close>.\<close>

definition report_at :: "string \<Rightarrow> nat json" where
  "report_at ts = JDict
     [(''analysisUTCTimestamp'', JStr ts),
      (''lighthouseResult'', JDict
         [(''finalUrl'', JStr ''https://example.com/''),
          (''audits'', JDict (map (\<lambda>(a, out). (a, sample_audit a)) audits))])]"

definition sample_report :: "nat json" where
  "sample_report = report_at ''2022-05-01T12:34:56.789012Z''"

definition sample_date :: datetime where
  "sample_date =
     \<lparr>year = 2022, month = 5, day = 1, hour = 12, minute = 34, second = 56,
      microsecond = 789012\<rparr>"

text \<open>The same report with the audit \<open>k\<close> left out.\<close>

definition report_without :: "string \<Rightarrow> nat json" where
  "report_without k = JDict
     [(''analysisUTCTimestamp'', JStr ''2022-05-01T12:34:56.789012Z''),
      (''lighthouseResult'', JDict
         [(''finalUrl'', JStr ''https://example.com/''),
          (''audits'', JDict (map (\<lambda>(a, out). (a, sample_audit a))
              (filter (\<lambda>(a, out). a \<noteq> k) audits)))])]"

section \<open>The library parser at the program's format\<close>

text \<open>
  \<open>datetime.strptime(s, '%Y-%m-%dT%H:%M:%S.%fZ')\<close> as CPython's \<open>_strptime\<close> module
  computes it. The format is compiled to the regular expression
  \<^verbatim>\<open>(?P<Y>\d\d\d\d)-(?P<m>1[0-2]|0[1-9]|[1-9])-(?P<d>3[0-1]|[1-2]\d|0[1-9]|[1-9]| [1-9])T\<close>
  \<^verbatim>\<open>(?P<H>2[0-3]|[0-1]\d|\d):(?P<M>[0-5]\d|\d):(?P<S>6[0-1]|[0-5]\d|\d)\.(?P<f>[0-9]{1,6})Z\<close>
  with the flag \<open>IGNORECASE\<close>; it is matched at the start of the string, and the match
  has to reach the end of the string. The groups are converted with \<open>int\<close>, the
  fraction after padding it with zeros to six digits, and handed to the constructors
  of \<open>date\<close> and \<open>datetime\<close>, which check the ranges. Every failure is a
  \<open>ValueError\<close>. Characters are the 8-bit characters of \<open>string\<close>, among which the
  decimal digits are \<open>0\<close> to \<open>9\<close>.
\<close>

definition is_digit :: "char \<Rightarrow> bool" where
  "is_digit c \<longleftrightarrow> c \<in> set ''0123456789''"

definition digit_value :: "char \<Rightarrow> nat" where
  "digit_value c = of_char c - 48"

text \<open>\<open>int(s)\<close> for a string of digits, after the blanks that \<open>int\<close> skips.\<close>

definition int_of_digits :: "string \<Rightarrow> nat" where
  "int_of_digits s =
     foldl (\<lambda>n c. 10 * n + digit_value c) 0 (dropWhile (\<lambda>c. c = CHR '' '') s)"

text \<open>The groups of the regular expression, each as a test of the whole group text.\<close>

definition re_Y :: "string \<Rightarrow> bool" where
  "re_Y s \<longleftrightarrow> length s = 4 \<and> list_all is_digit s"

fun re_m :: "string \<Rightarrow> bool" where
  "re_m [a, b] \<longleftrightarrow> a = CHR ''1'' \<and> b \<in> set ''012'' \<or> a = CHR ''0'' \<and> b \<in> set ''123456789''"
| "re_m [a] \<longleftrightarrow> a \<in> set ''123456789''"
| "re_m s \<longleftrightarrow> False"

fun re_d :: "string \<Rightarrow> bool" where
  "re_d [a, b] \<longleftrightarrow> a = CHR ''3'' \<and> b \<in> set ''01'' \<or> a \<in> set ''12'' \<and> is_digit b
     \<or> a = CHR ''0'' \<and> b \<in> set ''123456789'' \<or> a = CHR '' '' \<and> b \<in> set ''123456789''"
| "re_d [a] \<longleftrightarrow> a \<in> set ''123456789''"
| "re_d s \<longleftrightarrow> False"

fun re_H :: "string \<Rightarrow> bool" where
  "re_H [a, b] \<longleftrightarrow> a = CHR ''2'' \<and> b \<in> set ''0123'' \<or> a \<in> set ''01'' \<and> is_digit b"
| "re_H [a] \<longleftrightarrow> is_digit a"
| "re_H s \<longleftrightarrow> False"

fun re_M :: "string \<Rightarrow> bool" where
  "re_M [a, b] \<longleftrightarrow> a \<in> set ''012345'' \<and> is_digit b"
| "re_M [a] \<longleftrightarrow> is_digit a"
| "re_M s \<longleftrightarrow> False"

fun re_S :: "string \<Rightarrow> bool" where
  "re_S [a, b] \<longleftrightarrow> a = CHR ''6'' \<and> b \<in> set ''01'' \<or> a \<in> set ''012345'' \<and> is_digit b"
| "re_S [a] \<longleftrightarrow> is_digit a"
| "re_S s \<longleftrightarrow> False"

definition re_f :: "string \<Rightarrow> bool" where
  "re_f s \<longleftrightarrow> 1 \<le> length s \<and> length s \<le> 6 \<and> list_all is_digit s"

text \<open>
  No group can hold the literal that follows it, so a group ends at the first
  occurrence of that literal: \<open>split_at P s\<close> is the text before the first character
  with \<open>P\<close> and the text after it.
\<close>

definition split_at :: "(char \<Rightarrow> bool) \<Rightarrow> string \<Rightarrow> (string \<times> string) option" where
  "split_at P s =
     (case dropWhile (\<lambda>c. \<not> P c) s of
        [] \<Rightarrow> None
      | c # rest \<Rightarrow> Some (takeWhile (\<lambda>c. \<not> P c) s, rest))"

definition lit :: "char \<Rightarrow> char \<Rightarrow> bool" where
  "lit a c \<longleftrightarrow> c = a"

text \<open>A letter of the format, matched in either case.\<close>

definition lit_T :: "char \<Rightarrow> bool" where
  "lit_T c \<longleftrightarrow> c = CHR ''T'' \<or> c = CHR ''t''"

definition lit_Z :: "char \<Rightarrow> bool" where
  "lit_Z c \<longleftrightarrow> c = CHR ''Z'' \<or> c = CHR ''z''"

text \<open>The seven group texts of a full match, or \<open>None\<close>.\<close>

definition match_format ::
  "string \<Rightarrow> (string \<times> string \<times> string \<times> string \<times> string \<times> string \<times> string) option" where
  "match_format s =
     (case split_at (lit CHR ''-'') s of None \<Rightarrow> None | Some (gY, r1) \<Rightarrow>
      case split_at (lit CHR ''-'') r1 of None \<Rightarrow> None | Some (gm, r2) \<Rightarrow>
      case split_at lit_T r2 of None \<Rightarrow> None | Some (gd, r3) \<Rightarrow>
      case split_at (lit CHR '':'') r3 of None \<Rightarrow> None | Some (gH, r4) \<Rightarrow>
      case split_at (lit CHR '':'') r4 of None \<Rightarrow> None | Some (gM, r5) \<Rightarrow>
      case split_at (lit CHR ''.'') r5 of None \<Rightarrow> None | Some (gS, r6) \<Rightarrow>
      case split_at lit_Z r6 of None \<Rightarrow> None | Some (gf, r7) \<Rightarrow>
        if re_Y gY \<and> re_m gm \<and> re_d gd \<and> re_H gH \<and> re_M gM \<and> re_S gS \<and> re_f gf \<and> r7 = []
        then Some (gY, gm, gd, gH, gM, gS, gf) else None)"

definition is_leap :: "nat \<Rightarrow> bool" where
  "is_leap y \<longleftrightarrow> y mod 4 = 0 \<and> (y mod 100 \<noteq> 0 \<or> y mod 400 = 0)"

definition days_in_month :: "nat \<Rightarrow> nat \<Rightarrow> nat" where
  "days_in_month y m =
     (if m = 2 then (if is_leap y then 29 else 28)
      else if m \<in> {4, 6, 9, 11} then 30 else 31)"

text \<open>The range checks of the constructors \<open>date\<close> and \<open>datetime\<close>.\<close>

definition valid_datetime :: "datetime \<Rightarrow> bool" where
  "valid_datetime t \<longleftrightarrow>
     1 \<le> year t \<and> year t \<le> 9999 \<and> 1 \<le> month t \<and> month t \<le> 12
     \<and> 1 \<le> day t \<and> day t \<le> days_in_month (year t) (month t)
     \<and> hour t \<le> 23 \<and> minute t \<le> 59 \<and> second t \<le> 59 \<and> microsecond t \<le> 999999"

definition strptime_at_format :: "string \<Rightarrow> exn + datetime" where
  "strptime_at_format s =
     (case match_format s of
        None \<Rightarrow> Inl ValueError
      | Some (gY, gm, gd, gH, gM, gS, gf) \<Rightarrow>
          let t = \<lparr>year = int_of_digits gY, month = int_of_digits gm, day = int_of_digits gd,
                   hour = int_of_digits gH, minute = int_of_digits gM, second = int_of_digits gS,
                   microsecond = int_of_digits (gf @ replicate (6 - length gf) CHR ''0'')\<rparr>
          in if valid_datetime t then Inr t else Inl ValueError)"






section \<open>Stub services\<close>

text \<open>
  The stub table of the specification's scenarios: the warehouse is the list of its
  tables, each with the rows appended so far. \<open>get_table\<close> hands out the qualified
  name of a table that exists; \<open>insert_rows\<close> answers with the row errors \<open>errs\<close> it
  is set up with, and appends the batch when there are none. A row error of the stub
  is a string.
\<close>

text \<open>
  Python's \<open>str\<close> of a list of strings, as the f-string of \<open>insert_audits\<close> formats
  the stub's row errors: the \<open>repr\<close> of each element, separated by a comma and a blank,
  in square brackets. \<open>repr\<close> quotes with \<open>'\<close>, or with \<open>"\<close> when the string holds a
  \<open>'\<close> and no \<open>"\<close>; it escapes the backslash and the quote, writes tab, newline and
  carriage return as \<open>\t\<close>, \<open>\n\<close>, \<open>\r\<close> and any other unprintable character as
  \<open>\xhh\<close>.
\<close>

definition hex_digit :: "nat \<Rightarrow> char" where
  "hex_digit n = ''0123456789abcdef'' ! (n mod 16)"

definition is_printable :: "char \<Rightarrow> bool" where
  "is_printable c \<longleftrightarrow>
     (let n = (of_char c :: nat) in 32 \<le> n \<and> n \<le> 126 \<or> 161 \<le> n \<and> n \<noteq> 173)"

definition repr_char :: "char \<Rightarrow> char \<Rightarrow> string" where
  "repr_char q c =
     (if c = q \<or> c = CHR 0x5C then [CHR 0x5C, c]
      else if c = CHR 0x09 then [CHR 0x5C, CHR ''t'']
      else if c = CHR 0x0A then [CHR 0x5C, CHR ''n'']
      else if c = CHR 0x0D then [CHR 0x5C, CHR ''r'']
      else if is_printable c then [c]
      else [CHR 0x5C, CHR ''x'', hex_digit (of_char c div 16), hex_digit (of_char c mod 16)])"

definition py_repr :: "string \<Rightarrow> string" where
  "py_repr s =
     (let q = (if CHR 0x27 \<in> set s \<and> CHR 0x22 \<notin> set s then CHR 0x22 else CHR 0x27)
      in [q] @ concat (map (repr_char q) s) @ [q])"

fun join :: "string \<Rightarrow> string list \<Rightarrow> string" where
  "join sep [] = []"
| "join sep [x] = x"
| "join sep (x # y # rest) = x @ sep @ join sep (y # rest)"

definition py_str_list :: "string list \<Rightarrow> string" where
  "py_str_list xs = ''['' @ join '', '' (map py_repr xs) @ '']''"

type_synonym 'n stub_warehouse = "(string \<times> 'n row list) list"

definition stub_get_table :: "string \<Rightarrow> 'n stub_warehouse \<Rightarrow> exn + string" where
  "stub_get_table name wh =
     (if name \<in> set (map fst wh) then Inr name else Inl (OtherError ''NotFound''))"

definition stub_insert_rows ::
  "string list \<Rightarrow> string \<Rightarrow> 'n row list \<Rightarrow> 'n stub_warehouse \<Rightarrow> (exn + string list) \<times> 'n stub_warehouse" where
  "stub_insert_rows errs bq_table batch wh =
     (if errs = [] then (Inr [], AList.map_entry bq_table (\<lambda>old. old @ batch) wh)
      else (Inr errs, wh))"

definition stub_services ::
  "(string \<Rightarrow> exn + datetime) \<Rightarrow> (psi_request \<Rightarrow> exn + 'n json) \<Rightarrow> string list \<Rightarrow>
     ('n, string, string, 'n stub_warehouse) services" where
  "stub_services sp exec errs =
     \<lparr>strptime = sp, execute = exec, get_table = stub_get_table,
      insert_rows = stub_insert_rows errs, str_errors = py_str_list\<rparr>"

text \<open>A process with both environment variables set and one empty table.\<close>

definition sample_world :: "nat stub_warehouse world" where
  "sample_world =
     \<lparr>environ = [(''GOOGLE_CLOUD_PROJECT'', ''proj''), (''BIGQUERY_TABLE'', ''ds.audits'')],
      logged = [],
      warehouse = [(''proj.ds.audits'', [])]\<rparr>"

definition sample_form :: "(string \<times> string) list" where
  "sample_form = [(''test_url'', ''https://example.com'')]"

text \<open>The row that \<open>extract_audits\<close> makes of \<open>report_at ts\<close> when \<open>ts\<close> parses to \<open>d\<close>.\<close>

definition row_at :: "datetime \<Rightarrow> nat row" where
  "row_at d =
     (''date'', Date d) # (''url'', Val (JStr ''https://example.com/'')) #
     map (\<lambda>(a, out). (out, Val (JNum (length a)))) audits"

definition sample_row :: "nat row" where
  "sample_row = row_at sample_date"

text \<open>
  Stub services whose audit call answers with \<open>sample_report\<close>.
\<close>

definition sample_services ::
  "string list \<Rightarrow> (nat, string, string, nat stub_warehouse) services" where
  "sample_services errs = stub_services strptime_at_format (\<lambda>r. Inr sample_report) errs"

text \<open>Stub services whose audit call raises \<open>exn\<close>.\<close>

definition failing_services ::
  "exn \<Rightarrow> (nat, string, string, nat stub_warehouse) services" where
  "failing_services e = stub_services strptime_at_format (\<lambda>r. Inl e) []"

text \<open>Stub services whose audit call answers with the report \<open>psi\<close>.\<close>

definition answering_services ::
  "nat json \<Rightarrow> (nat, string, string, nat stub_warehouse) services" where
  "answering_services psi = stub_services strptime_at_format (\<lambda>r. Inr psi) []"

text \<open>A row error of the stub, and the message \<open>insert_audits\<close> raises with it.\<close>

definition sample_rejection :: string where
  "sample_rejection = ''no such field: speed_index''"

definition sample_message :: string where
  "sample_message =
     ''Failed to write all rows to bigquery: ['' @ [CHR 0x27] @ ''no such field: speed_index''
       @ [CHR 0x27] @ ''].''"

text \<open>Stub services whose insert call itself raises \<open>e\<close>.\<close>

definition raising_insert_services ::
  "exn \<Rightarrow> (nat, string, string, nat stub_warehouse) services" where
  "raising_insert_services e = (sample_services [])\<lparr>insert_rows := \<lambda>bq_table batch wh. (Inl e, wh)\<rparr>"

section \<open>extract_audits on a store of objects\<close>

text \<open>
  To speak of mutation, the same function over an explicit store. A Python value is
  immediate or a reference to an object; dictionaries and lists are objects, held in a
  store indexed by address. Creating an object appends it to the store, so the new
  address is the length of the store before.
\<close>

type_synonym addr = nat

datatype 'n pyval =
    PNone
  | PBool bool
  | PNum 'n
  | PStr string
  | PDate datetime
  | PRef addr

datatype 'n pyobj =
    PyDict "(string \<times> 'n pyval) list"
  | PyList "'n pyval list"

type_synonym 'n store = "'n pyobj list"

text \<open>\<open>{}\<close>: a new empty dictionary.\<close>

definition new_dict :: "'n store \<Rightarrow> addr \<times> 'n store" where
  "new_dict h = (length h, h @ [PyDict []])"

text \<open>
  \<open>obj[key]\<close> with a string key, reading the store. Only a dictionary answers; an
  address outside the store refers to no object and is treated like a value that cannot
  be subscripted.
\<close>

fun getitem_st :: "'n store \<Rightarrow> 'n pyval \<Rightarrow> string \<Rightarrow> exn + 'n pyval" where
  "getitem_st h (PRef a) k =
     (if a < length h
      then (case h ! a of
              PyDict kvs \<Rightarrow> (case map_of kvs k of None \<Rightarrow> Inl (KeyError k) | Some v \<Rightarrow> Inr v)
            | PyList xs \<Rightarrow> Inl TypeError)
      else Inl TypeError)"
| "getitem_st h PNone k = Inl TypeError"
| "getitem_st h (PBool b) k = Inl TypeError"
| "getitem_st h (PNum n) k = Inl TypeError"
| "getitem_st h (PStr s) k = Inl TypeError"
| "getitem_st h (PDate d) k = Inl TypeError"

text \<open>\<open>d[key] = v\<close> on the dictionary at address \<open>a\<close>: the one write of the program.\<close>

definition setitem_st :: "'n store \<Rightarrow> addr \<Rightarrow> string \<Rightarrow> 'n pyval \<Rightarrow> 'n store" where
  "setitem_st h a k v =
     (if a < length h
      then (case h ! a of
              PyDict kvs \<Rightarrow> h[a := PyDict (AList.update k v kvs)]
            | PyList xs \<Rightarrow> h)
      else h)"

definition datetime_strptime_st :: "(string \<Rightarrow> exn + datetime) \<Rightarrow> 'n pyval \<Rightarrow> exn + datetime" where
  "datetime_strptime_st sp v = (case v of PStr s \<Rightarrow> sp s | _ \<Rightarrow> Inl TypeError)"

text \<open>
  The loop, with \<open>to_return\<close> the address of the dictionary being filled. The table
  \<open>audits\<close> is a literal of the function that nothing writes to; it stays the constant
  \<open>audits\<close>.
\<close>

fun extract_loop_st ::
  "string list \<Rightarrow> 'n pyval \<Rightarrow> addr \<Rightarrow> 'n store \<Rightarrow> (exn + unit) \<times> 'n store" where
  "extract_loop_st [] psi_json to_return h = (Inr (), h)"
| "extract_loop_st (a # rest) psi_json to_return h =
     (case getitem_st h psi_json ''lighthouseResult'' of Inl e \<Rightarrow> (Inl e, h) | Inr lr \<Rightarrow>
      case getitem_st h lr ''audits'' of Inl e \<Rightarrow> (Inl e, h) | Inr au \<Rightarrow>
      case getitem_st h au a of Inl e \<Rightarrow> (Inl e, h) | Inr m \<Rightarrow>
      case getitem_st h m ''numericValue'' of Inl e \<Rightarrow> (Inl e, h) | Inr v \<Rightarrow>
      case map_of audits a of
        None \<Rightarrow> (Inl (KeyError a), h)
      | Some out \<Rightarrow> extract_loop_st rest psi_json to_return (setitem_st h to_return out v))"

text \<open>
  The function: it returns the address of the row, or the exception, and the store as
  the call leaves it.
\<close>

definition extract_audits_st ::
  "(string \<Rightarrow> exn + datetime) \<Rightarrow> 'n pyval \<Rightarrow> 'n store \<Rightarrow> (exn + addr) \<times> 'n store" where
  "extract_audits_st sp psi_json h0 =
     (let (to_return, h) = new_dict h0 in
      case getitem_st h psi_json ''analysisUTCTimestamp'' of Inl e \<Rightarrow> (Inl e, h) | Inr ts \<Rightarrow>
      case datetime_strptime_st sp ts of Inl e \<Rightarrow> (Inl e, h) | Inr d \<Rightarrow>
      let h = setitem_st h to_return ''date'' (PDate d) in
      case getitem_st h psi_json ''lighthouseResult'' of Inl e \<Rightarrow> (Inl e, h) | Inr lr \<Rightarrow>
      case getitem_st h lr ''finalUrl'' of Inl e \<Rightarrow> (Inl e, h) | Inr u \<Rightarrow>
      let h = setitem_st h to_return ''url'' u in
      case extract_loop_st (map fst audits) psi_json to_return h of
        (Inl e, h) \<Rightarrow> (Inl e, h)
      | (Inr _, h) \<Rightarrow> (Inr to_return, h))"

text \<open>
  Building the objects of a parsed document in the store, as the JSON decoder does:
  the value that stands for the document, and the store with its objects added.
\<close>

fun alloc_json :: "'n json \<Rightarrow> 'n store \<Rightarrow> 'n pyval \<times> 'n store"
  and alloc_items :: "(string \<times> 'n json) list \<Rightarrow> 'n store \<Rightarrow> (string \<times> 'n pyval) list \<times> 'n store"
  and alloc_elems :: "'n json list \<Rightarrow> 'n store \<Rightarrow> 'n pyval list \<times> 'n store" where
  "alloc_json JNone h = (PNone, h)"
| "alloc_json (JBool b) h = (PBool b, h)"
| "alloc_json (JNum n) h = (PNum n, h)"
| "alloc_json (JStr s) h = (PStr s, h)"
| "alloc_json (JList xs) h =
     (let (vs, h1) = alloc_elems xs h in (PRef (length h1), h1 @ [PyList vs]))"
| "alloc_json (JDict kvs) h =
     (let (items, h1) = alloc_items kvs h in (PRef (length h1), h1 @ [PyDict items]))"
| "alloc_items [] h = ([], h)"
| "alloc_items ((k, j) # kvs) h =
     (let (v, h1) = alloc_json j h; (items, h2) = alloc_items kvs h1 in ((k, v) # items, h2))"
| "alloc_elems [] h = ([], h)"
| "alloc_elems (j # js) h =
     (let (v, h1) = alloc_json j h; (vs, h2) = alloc_elems js h1 in (v # vs, h2))"

text \<open>The sample report as objects in an otherwise empty store.\<close>

definition sample_ref :: "nat pyval" where
  "sample_ref = fst (alloc_json sample_report [])"

definition sample_store :: "nat store" where
  "sample_store = snd (alloc_json sample_report [])"

section \<open>Sequencing and lookup lemmas\<close>

lemma bind_exn_Inr [simp]: "bind_exn (Inr x) f = f x"
  by (simp add: bind_exn_def)

lemma bind_exn_Inl [simp]: "bind_exn (Inl e) f = Inl e"
  by (simp add: bind_exn_def)

lemma bind_exn_eq_Inr: "bind_exn m f = Inr y \<longleftrightarrow> (\<exists>x. m = Inr x \<and> f x = Inr y)"
  by (cases m) simp_all

lemma lookup_path_Cons:
  "lookup_path j (k # ks) = Some v \<longleftrightarrow> (\<exists>x. getitem j k = Inr x \<and> lookup_path x ks = Some v)"
  by (cases j) (auto split: option.splits)

lemma lookup_path_single: "lookup_path j [k] = Some v \<longleftrightarrow> getitem j k = Inr v"
  by (simp add: lookup_path_Cons)

lemma extract_loop_Inr:
  assumes "getitem psi ''lighthouseResult'' = Inr lr" and "getitem lr ''audits'' = Inr au"
    and "\<forall>a\<in>set ks. \<exists>m. getitem au a = Inr m \<and> getitem m ''numericValue'' = Inr (nv a)"
    and "\<forall>a\<in>set ks. \<exists>out. map_of audits a = Some out"
  shows "extract_loop ks psi r =
    Inr (fold (\<lambda>a. AList.update (the (map_of audits a)) (Val (nv a))) ks r)"
  using assms(3,4)
proof (induction ks arbitrary: r)
  case Nil
  then show ?case by simp
next
  case (Cons a ks)
  from Cons.prems obtain m out where m: "getitem au a = Inr m"
    "getitem m ''numericValue'' = Inr (nv a)" "map_of audits a = Some out"
    by auto
  have "extract_loop (a # ks) psi r = extract_loop ks psi (AList.update out (Val (nv a)) r)"
    by (simp add: assms(1,2) m)
  also have "\<dots> = Inr (fold (\<lambda>a. AList.update (the (map_of audits a)) (Val (nv a))) ks
      (AList.update out (Val (nv a)) r))"
    using Cons.prems by (intro Cons.IH) auto
  finally show ?case by (simp add: m)
qed

lemma extract_loop_needs:
  "extract_loop ks psi r = Inr r' \<Longrightarrow> a \<in> set ks \<Longrightarrow>
     \<exists>v. lookup_path psi (metric_path a) = Some v"
proof (induction ks arbitrary: r)
  case Nil
  then show ?case by simp
next
  case (Cons b ks)
  from Cons.prems(1) obtain lr au m v out where
    s: "getitem psi ''lighthouseResult'' = Inr lr" "getitem lr ''audits'' = Inr au"
      "getitem au b = Inr m" "getitem m ''numericValue'' = Inr v"
      "extract_loop ks psi (AList.update out (Val v) r) = Inr r'"
    by (auto simp: bind_exn_eq_Inr split: option.splits)
  show ?case
  proof (cases "a = b")
    case True
    with s show ?thesis by (auto simp: metric_path_def lookup_path_Cons)
  next
    case False
    with Cons.prems(2) have "a \<in> set ks" by simp
    with Cons.IH s(5) show ?thesis by blast
  qed
qed

lemma audits_keys_mapped: "\<forall>a\<in>set (map fst audits). \<exists>out. map_of audits a = Some out"
  by (simp add: audits_def)

lemma fold_audits:
  "fold (\<lambda>a. AList.update (the (map_of audits a)) (Val (nv a))) (map fst audits)
     [(''date'', dv), (''url'', uv)] =
   (''date'', dv) # (''url'', uv) # map (\<lambda>(a, out). (out, Val (nv a))) audits"
  by (simp add: audits_def)


section \<open>The row of a complete report\<close>

lemma row_props:
  fixes nv :: "string \<Rightarrow> 'n json"
  assumes "row = (''date'', Date d) # (''url'', Val u) # map (\<lambda>(a, out). (out, Val (nv a))) audits"
  shows "map fst row = row_keys" "length row = 15" "distinct (map fst row)"
    "map_of row ''date'' = Some (Date d)" "map_of row ''url'' = Some (Val u)"
    "\<forall>(a, out)\<in>set audits. map_of row out = Some (Val (nv a))"
  unfolding assms by (simp_all add: audits_def row_keys_def)

lemma extract_audits_row:
  fixes nv :: "string \<Rightarrow> 'n json"
  assumes ts: "lookup_path psi [''analysisUTCTimestamp''] = Some (JStr ts)"
    and sp: "sp ts = Inr d"
    and url: "lookup_path psi [''lighthouseResult'', ''finalUrl''] = Some u"
    and nv: "\<forall>a\<in>set (map fst audits). lookup_path psi (metric_path a) = Some (nv a)"
  shows "extract_audits sp psi =
    Inr ((''date'', Date d) # (''url'', Val u) # map (\<lambda>(a, out). (out, Val (nv a))) audits)"
proof -
  from ts have g1: "getitem psi ''analysisUTCTimestamp'' = Inr (JStr ts)"
    by (simp add: lookup_path_single)
  from url obtain lr where lr: "getitem psi ''lighthouseResult'' = Inr lr"
    and g2: "getitem lr ''finalUrl'' = Inr u"
    by (auto simp: lookup_path_Cons)
  have "''speed-index'' \<in> set (map fst audits)" by (simp add: audits_def)
  with nv have "lookup_path psi (metric_path ''speed-index'') = Some (nv ''speed-index'')"
    by blast
  with lr obtain au where au: "getitem lr ''audits'' = Inr au"
    by (auto simp: metric_path_def lookup_path_Cons)
  have each: "\<forall>a\<in>set (map fst audits).
      \<exists>m. getitem au a = Inr m \<and> getitem m ''numericValue'' = Inr (nv a)"
  proof
    fix a assume "a \<in> set (map fst audits)"
    with nv have "lookup_path psi (metric_path a) = Some (nv a)" by blast
    with lr au show "\<exists>m. getitem au a = Inr m \<and> getitem m ''numericValue'' = Inr (nv a)"
      by (auto simp: metric_path_def lookup_path_Cons)
  qed
  have "extract_audits sp psi =
      extract_loop (map fst audits) psi [(''date'', Date d), (''url'', Val u)]"
    by (simp add: extract_audits_def g1 datetime_strptime_def sp lr g2)
  also have "\<dots> = Inr ((''date'', Date d) # (''url'', Val u) #
      map (\<lambda>(a, out). (out, Val (nv a))) audits)"
    by (simp only: extract_loop_Inr [OF lr au each audits_keys_mapped] fold_audits)
  finally show ?thesis .
qed

lemma report_at_paths:
  "lookup_path (report_at ts) [''analysisUTCTimestamp''] = Some (JStr ts)"
  "lookup_path (report_at ts) [''lighthouseResult'', ''finalUrl''] = Some (JStr ''https://example.com/'')"
  "\<forall>a\<in>set (map fst audits). lookup_path (report_at ts) (metric_path a) = Some (JNum (length a))"
  by (simp_all add: report_at_def sample_audit_def metric_path_def audits_def)

lemmas sample_report_paths =
  report_at_paths [of "''2022-05-01T12:34:56.789012Z''", folded sample_report_def]

lemma extract_audits_report_at:
  assumes "sp ts = Inr d"
  shows "extract_audits sp (report_at ts) = Inr (row_at d)"
  using extract_audits_row [where sp = sp and nv = "\<lambda>a. JNum (length a)",
      OF report_at_paths(1) assms report_at_paths(2,3)]
  by (simp add: row_at_def)

lemma extract_audits_sample:
  assumes "sp ''2022-05-01T12:34:56.789012Z'' = Inr sample_date"
  shows "extract_audits sp sample_report = Inr sample_row"
  unfolding sample_report_def sample_row_def using assms by (rule extract_audits_report_at)

lemma extract_audits_Inr_fields:
  assumes "extract_audits sp psi = Inr row"
  shows "\<exists>ts d. lookup_path psi [''analysisUTCTimestamp''] = Some (JStr ts) \<and> sp ts = Inr d"
    and "p \<in> set required_paths \<Longrightarrow> lookup_path psi p \<noteq> None"
proof -
  from assms obtain tsv d lr u where
    s: "getitem psi ''analysisUTCTimestamp'' = Inr tsv" "datetime_strptime sp tsv = Inr d"
      "getitem psi ''lighthouseResult'' = Inr lr" "getitem lr ''finalUrl'' = Inr u"
      "extract_loop (map fst audits) psi
         (AList.update ''url'' (Val u) (AList.update ''date'' (Date d) [])) = Inr row"
    by (auto simp: extract_audits_def bind_exn_eq_Inr)
  from s(2) obtain ts where "tsv = JStr ts" "sp ts = Inr d"
    by (cases tsv) (simp_all add: datetime_strptime_def)
  with s(1) show "\<exists>ts d. lookup_path psi [''analysisUTCTimestamp''] = Some (JStr ts) \<and> sp ts = Inr d"
    by (auto simp: lookup_path_single)
  assume "p \<in> set required_paths"
  then consider "p = [''analysisUTCTimestamp'']" | "p = [''lighthouseResult'', ''finalUrl'']"
    | a where "a \<in> set (map fst audits)" "p = metric_path a"
    by (auto simp: required_paths_def)
  then show "lookup_path psi p \<noteq> None"
  proof cases
    case 1
    with s(1) lookup_path_single [of psi "''analysisUTCTimestamp''" tsv]
    show ?thesis by simp
  next
    case 2
    with s(3,4) lookup_path_Cons [of psi "''lighthouseResult''" "[''finalUrl'']" u]
    show ?thesis by (simp add: lookup_path_single)
  next
    case 3
    with extract_loop_needs [OF s(5)] show ?thesis by fastforce
  qed
qed

lemma complete_report_iff:
  "complete_report sp psi \<longleftrightarrow> (\<exists>row. extract_audits sp psi = Inr row)"
proof
  assume c: "complete_report sp psi"
  then obtain ts d where ts: "lookup_path psi [''analysisUTCTimestamp''] = Some (JStr ts)"
    and sp: "sp ts = Inr d"
    by (auto simp: complete_report_def split: option.splits json.splits sum.splits)
  from c have all: "\<forall>p\<in>set required_paths. lookup_path psi p \<noteq> None"
    by (simp add: complete_report_def list_all_iff)
  then obtain u where u: "lookup_path psi [''lighthouseResult'', ''finalUrl''] = Some u"
    by (auto simp: required_paths_def)
  have "\<forall>a\<in>set (map fst audits). lookup_path psi (metric_path a)
      = Some (the (lookup_path psi (metric_path a)))"
    using all by (auto simp: required_paths_def)
  from extract_audits_row
    [where sp = sp and nv = "\<lambda>a. the (lookup_path psi (metric_path a))", OF ts sp u this]
  show "\<exists>row. extract_audits sp psi = Inr row"
    by blast
next
  assume "\<exists>row. extract_audits sp psi = Inr row"
  then obtain row where r: "extract_audits sp psi = Inr row" ..
  from extract_audits_Inr_fields [OF r] show "complete_report sp psi"
    by (auto simp: complete_report_def list_all_iff)
qed

section \<open>Evaluating the parser\<close>

lemma replicate_small:
  "replicate 1 c = [c]" "replicate 2 c = [c, c]" "replicate 3 c = [c, c, c]"
  "replicate 4 c = [c, c, c, c]" "replicate 5 c = [c, c, c, c, c]"
  by (simp_all add: numeral_eq_Suc)

lemmas strptime_eval = strptime_at_format_def int_of_digits_def digit_value_def
  valid_datetime_def days_in_month_def is_leap_def replicate_small

lemma strptime_sample: "strptime_at_format ''2022-05-01T12:34:56.789012Z'' = Inr sample_date"
proof -
  have "match_format ''2022-05-01T12:34:56.789012Z'' =
      Some (''2022'', ''05'', ''01'', ''12'', ''34'', ''56'', ''789012'')"
    by code_simp
  then show ?thesis by (simp add: strptime_eval sample_date_def)
qed


lemma strptime_yesterday: "strptime_at_format ''yesterday'' = Inl ValueError"
proof -
  have "match_format ''yesterday'' = None"
    by code_simp
  then show ?thesis by (simp add: strptime_at_format_def)
qed

section \<open>What the parser accepts\<close>










section \<open>Strings of the strict shape\<close>



lemma digit_value_le: "is_digit c \<Longrightarrow> digit_value c \<le> 9"
  by (auto simp: is_digit_def digit_value_def)























section \<open>Evaluating the stub services\<close>

lemma stub_sel [simp]:
  "strptime (stub_services sp exec errs) = sp"
  "execute (stub_services sp exec errs) = exec"
  "get_table (stub_services sp exec errs) = stub_get_table"
  "insert_rows (stub_services sp exec errs) = stub_insert_rows errs"
  "str_errors (stub_services sp exec errs) = py_str_list"
  by (simp_all add: stub_services_def)

lemma sample_world_sel:
  "map_of (environ sample_world) ''GOOGLE_CLOUD_PROJECT'' = Some ''proj''"
  "map_of (environ sample_world) ''BIGQUERY_TABLE'' = Some ''ds.audits''"
  "warehouse sample_world = [(''proj.ds.audits'', [])]"
  "logged sample_world = []"
  by (simp_all add: sample_world_def)

lemma sample_form_sel: "map_of sample_form ''test_url'' = Some ''https://example.com''"
  by (simp add: sample_form_def)

lemma stub_get_table_sample:
  "stub_get_table (''proj'' @ ''.'' @ ''ds.audits'') (warehouse sample_world) = Inr ''proj.ds.audits''"
  by (simp add: stub_get_table_def sample_world_def)

lemma get_psi_audit_Inr:
  "execute svc \<lparr>url = test_url, category = ''PERFORMANCE'', strategy = ''MOBILE''\<rparr> = Inr psi
    \<Longrightarrow> get_psi_audit svc test_url w = (Inr psi, w)"
  by (simp add: get_psi_audit_def)

lemma get_psi_audit_HttpError:
  "execute svc \<lparr>url = test_url, category = ''PERFORMANCE'', strategy = ''MOBILE''\<rparr>
      = Inl (HttpError s d)
    \<Longrightarrow> get_psi_audit svc test_url w = (Inr JNone, w\<lparr>logged := logged w @ [LogPsiError s d]\<rparr>)"
  by (simp add: get_psi_audit_def)

lemma extract_audits_None: "extract_audits sp JNone = Inl TypeError"
  by (simp add: extract_audits_def)

lemma py_str_list_sample:
  "py_str_list [sample_rejection] = ''['' @ [CHR 0x27] @ ''no such field: speed_index'' @ [CHR 0x27] @ '']''"
  by (simp add: py_str_list_def py_repr_def sample_rejection_def repr_char_def is_printable_def Let_def)

lemma sample_message_eq:
  "''Failed to write all rows to bigquery: '' @ py_str_list [sample_rejection] @ ''.'' = sample_message"
  by (simp add: py_str_list_sample sample_message_def)

section \<open>Lemmas on insert_audits and submit_test\<close>

lemma insert_audits_no_project:
  "insert_audits (sample_services []) ''ds.audits'' sample_row
      (sample_world\<lparr>environ := [(''BIGQUERY_TABLE'', ''ds.audits'')]\<rparr>)
     = (Inl (KeyError ''GOOGLE_CLOUD_PROJECT''),
        sample_world\<lparr>environ := [(''BIGQUERY_TABLE'', ''ds.audits'')]\<rparr>)"
  by (simp add: insert_audits_def)

lemma insert_audits_accepted:
  assumes "map_of (environ w) ''GOOGLE_CLOUD_PROJECT'' = Some project_name"
    and "get_table svc (project_name @ ''.'' @ table) (warehouse w) = Inr bq_table"
    and "insert_rows svc bq_table [audit_row] (warehouse w) = (Inr [], wh)"
  shows "insert_audits svc table audit_row w = (Inr (), w\<lparr>warehouse := wh\<rparr>)"
  using assms by (simp add: insert_audits_def)

lemma insert_audits_rejected:
  assumes "map_of (environ w) ''GOOGLE_CLOUD_PROJECT'' = Some project_name"
    and "get_table svc (project_name @ ''.'' @ table) (warehouse w) = Inr bq_table"
    and "insert_rows svc bq_table [audit_row] (warehouse w) = (Inr errors, wh)"
    and "errors \<noteq> []"
  shows "insert_audits svc table audit_row w =
    (Inl (RuntimeError (''Failed to write all rows to bigquery: '' @ str_errors svc errors @ ''.'')),
     w\<lparr>warehouse := wh\<rparr>)"
  using assms by (simp add: insert_audits_def)

lemma sample_services_message:
  "''Failed to write all rows to bigquery: '' @ str_errors (sample_services errs) [sample_rejection] @ ''.''
     = sample_message"
  unfolding sample_services_def stub_sel by (rule sample_message_eq)

lemma insert_audits_sample_rejected:
  "insert_audits (sample_services [sample_rejection]) ''ds.audits'' sample_row sample_world
     = (Inl (RuntimeError sample_message), sample_world)"
proof -
  let ?svc = "sample_services [sample_rejection]"
  have g: "get_table ?svc (''proj'' @ ''.'' @ ''ds.audits'') (warehouse sample_world)
      = Inr ''proj.ds.audits''"
    by (simp only: sample_services_def stub_sel stub_get_table_sample)
  have i: "insert_rows ?svc ''proj.ds.audits'' [sample_row] (warehouse sample_world)
      = (Inr [sample_rejection], warehouse sample_world)"
    by (simp add: sample_services_def stub_insert_rows_def)
  have "insert_audits ?svc ''ds.audits'' sample_row sample_world =
      (Inl (RuntimeError (''Failed to write all rows to bigquery: ''
          @ str_errors ?svc [sample_rejection] @ ''.'')),
       sample_world\<lparr>warehouse := warehouse sample_world\<rparr>)"
    by (rule insert_audits_rejected [OF sample_world_sel(1) g i]) simp
  then show ?thesis
    unfolding sample_services_message by simp
qed

lemma submit_test_renders:
  "submit_test svc form w = (Inr r, w') \<Longrightarrow>
     r = render_template ''index.html'' (Some ''success'')
     \<or> r = render_template ''index.html'' (Some ''failure'')"
  by (auto simp: submit_test_def split: option.splits sum.splits prod.splits if_splits)

lemma sample_services_facts:
  "execute (sample_services errs)
      \<lparr>url = ''https://example.com'', category = ''PERFORMANCE'', strategy = ''MOBILE''\<rparr>
    = Inr sample_report"
  "extract_audits (strptime (sample_services errs)) sample_report = Inr sample_row"
  "complete_report (strptime (sample_services errs)) sample_report"
  "get_table (sample_services errs) (''proj'' @ ''.'' @ ''ds.audits'') (warehouse sample_world)
    = Inr ''proj.ds.audits''"
proof -
  show "execute (sample_services errs)
      \<lparr>url = ''https://example.com'', category = ''PERFORMANCE'', strategy = ''MOBILE''\<rparr>
    = Inr sample_report"
    by (simp add: sample_services_def)
  show r: "extract_audits (strptime (sample_services errs)) sample_report = Inr sample_row"
    by (simp add: sample_services_def extract_audits_sample strptime_sample)
  then show "complete_report (strptime (sample_services errs)) sample_report"
    by (simp add: complete_report_iff)
  show "get_table (sample_services errs) (''proj'' @ ''.'' @ ''ds.audits'') (warehouse sample_world)
    = Inr ''proj.ds.audits''"
    by (simp only: sample_services_def stub_sel stub_get_table_sample)
qed

lemma map_fst_map_entry: "map fst (AList.map_entry k f xs) = map fst xs"
  by (induction xs) auto

lemma insert_audits_no_table:
  "insert_audits (sample_services []) ''ds.audits'' sample_row (sample_world\<lparr>warehouse := []\<rparr>)
     = (Inl (OtherError ''NotFound''), sample_world\<lparr>warehouse := []\<rparr>)"
  by (simp add: insert_audits_def sample_world_def sample_services_def stub_get_table_def)

lemma insert_audits_insert_raises:
  "insert_audits (raising_insert_services e) ''ds.audits'' sample_row sample_world
     = (Inl e, sample_world)"
proof -
  have "stub_get_table ''proj.ds.audits'' (warehouse sample_world) = Inr ''proj.ds.audits''"
    using stub_get_table_sample by simp
  then show ?thesis
    by (simp add: insert_audits_def sample_world_sel(1) raising_insert_services_def
        sample_services_def stub_services_def)
qed

section \<open>The date of an extracted row\<close>









section \<open>Writes to the store\<close>

lemma setitem_st_length [simp]: "length (setitem_st h a k v) = length h"
  by (simp add: setitem_st_def split: pyobj.splits)

lemma setitem_st_frame: "n \<le> a \<Longrightarrow> take n (setitem_st h a k v) = take n h"
  by (simp add: setitem_st_def split: pyobj.splits)

lemma setitem_st_dict:
  assumes "h ! b = PyDict kvs"
  shows "\<exists>kvs'. setitem_st h a k v ! b = PyDict kvs'"
proof (cases "a = b \<and> a < length h")
  case True
  with assms show ?thesis by (simp add: setitem_st_def)
next
  case False
  with assms show ?thesis
    by (auto simp: setitem_st_def split: pyobj.splits)
qed

lemma extract_loop_st_frame:
  assumes "extract_loop_st ks psi to_return h = (r, h')" and "n \<le> to_return"
  shows "take n h' = take n h \<and> length h' = length h"
  using assms(1)
proof (induction ks arbitrary: h)
  case Nil
  then show ?case by simp
next
  case (Cons a ks)
  show ?case
  proof (cases "\<exists>out v. h' \<noteq> h \<and> map_of audits a = Some out
      \<and> extract_loop_st ks psi to_return (setitem_st h to_return out v) = (r, h')")
    case True
    then obtain out v where
      "extract_loop_st ks psi to_return (setitem_st h to_return out v) = (r, h')"
      by blast
    from Cons.IH [OF this] show ?thesis
      by (simp add: setitem_st_frame [OF assms(2)])
  next
    case False
    with Cons.prems have "h' = h"
      by (auto split: sum.splits option.splits)
    then show ?thesis by simp
  qed
qed

lemma extract_loop_st_dict:
  assumes "extract_loop_st ks psi to_return h = (r, h')" and "h ! b = PyDict kvs"
  shows "\<exists>kvs'. h' ! b = PyDict kvs'"
  using assms
proof (induction ks arbitrary: h kvs)
  case Nil
  then show ?case by simp
next
  case (Cons a ks)
  show ?case
  proof (cases "\<exists>out v. h' \<noteq> h \<and> map_of audits a = Some out
      \<and> extract_loop_st ks psi to_return (setitem_st h to_return out v) = (r, h')")
    case True
    then obtain out v where
      s: "extract_loop_st ks psi to_return (setitem_st h to_return out v) = (r, h')"
      by blast
    from setitem_st_dict [OF Cons.prems(2)] obtain kvs' where
      "setitem_st h to_return out v ! b = PyDict kvs'"
      by blast
    from Cons.IH [OF s this] show ?thesis .
  next
    case False
    with Cons.prems(1) have "h' = h"
      by (auto split: sum.splits option.splits)
    with Cons.prems(2) show ?thesis by simp
  qed
qed

section \<open>The sample report in the store\<close>

lemma sample_store_eval: "sample_ref = PRef 15 \<and> length sample_store = 16"
  by (simp add: sample_ref_def sample_store_def sample_report_def report_at_def sample_audit_def
      audits_def Let_def)

lemma sample_run:
  "fst (extract_audits_st strptime_at_format sample_ref sample_store) = Inr 16"
  by (simp add: extract_audits_st_def new_dict_def sample_ref_def sample_store_def
      sample_report_def report_at_def sample_audit_def audits_def Let_def
      setitem_st_def datetime_strptime_st_def strptime_sample)

section \<open>Properties of extract_audits\<close>

text \<open>
  Claim C1. A response with a parseable \<open>analysisUTCTimestamp\<close>, a
  \<open>lighthouseResult.finalUrl\<close> and a \<open>numericValue\<close> under
  \<open>lighthouseResult.audits[a]\<close> for each of the thirteen identifiers yields a row with
  exactly the fifteen keys \<open>date\<close>, \<open>url\<close> and the underscored metric names, none
  twice; \<open>url\<close> holds the \<open>finalUrl\<close> and each metric key the very \<open>numericValue\<close>
  of its identifier.
\<close>

theorem extract_audits_complete:
  fixes nv :: "string \<Rightarrow> 'n json"
  assumes ts: "lookup_path psi [''analysisUTCTimestamp''] = Some (JStr ts)"
    and sp: "sp ts = Inr d"
    and url: "lookup_path psi [''lighthouseResult'', ''finalUrl''] = Some u"
    and nv: "\<forall>a\<in>set (map fst audits). lookup_path psi (metric_path a) = Some (nv a)"
  shows "\<exists>row. extract_audits sp psi = Inr row
     \<and> map fst row = row_keys \<and> length row = 15 \<and> distinct (map fst row)
     \<and> map_of row ''date'' = Some (Date d)
     \<and> map_of row ''url'' = Some (Val u)
     \<and> (\<forall>(a, out)\<in>set audits. map_of row out = Some (Val (nv a)))"
proof -
  define row where
    "row = (''date'', Date d) # (''url'', Val u) # map (\<lambda>(a, out). (out, Val (nv a))) audits"
  have "extract_audits sp psi = Inr row"
    unfolding row_def using extract_audits_row [where sp = sp and nv = nv, OF ts sp url nv] .
  with row_props [OF row_def] show ?thesis by blast
qed

theorem extract_audits_complete_witness:
  "\<exists>row. extract_audits (\<lambda>s. Inr sample_date) sample_report = Inr row
     \<and> map fst row = row_keys \<and> length row = 15 \<and> distinct (map fst row)
     \<and> map_of row ''date'' = Some (Date sample_date)
     \<and> map_of row ''url'' = Some (Val (JStr ''https://example.com/''))
     \<and> (\<forall>(a, out)\<in>set audits. map_of row out = Some (Val (JNum (length a))))"
  using extract_audits_complete
    [where sp = "\<lambda>s. Inr sample_date" and nv = "\<lambda>a. JNum (length a)" and d = sample_date,
      OF sample_report_paths(1) _ sample_report_paths(2,3)]
  by simp

text \<open>
  Claim C2. When any one of the fifteen required fields (the timestamp, the
  \<open>finalUrl\<close>, a metric's \<open>numericValue\<close>) is missing at any nesting level,
  \<open>extract_audits\<close> raises: it returns no row, partial or filled with defaults.
\<close>

theorem extract_audits_missing_field:
  assumes "p \<in> set required_paths" and "lookup_path psi p = None"
  shows "\<exists>e. extract_audits sp psi = Inl e"
proof (cases "extract_audits sp psi")
  case (Inl e)
  then show ?thesis by blast
next
  case (Inr row)
  from extract_audits_Inr_fields(2) [OF Inr assms(1)] assms(2) show ?thesis by simp
qed

theorem extract_audits_missing_field_witness:
  "metric_path ''interactive'' \<in> set required_paths
   \<and> lookup_path (report_without ''interactive'') (metric_path ''interactive'') = None
   \<and> (\<exists>e. extract_audits (\<lambda>s. Inr sample_date) (report_without ''interactive'') = Inl e)"
proof -
  have a: "metric_path ''interactive'' \<in> set required_paths"
    by (simp add: required_paths_def audits_def)
  have b: "lookup_path (report_without ''interactive'') (metric_path ''interactive'') = None"
    by (simp add: report_without_def metric_path_def audits_def)
  from a b extract_audits_missing_field [OF a b, of "\<lambda>s. Inr sample_date"] show ?thesis by simp
qed

section \<open>Properties of get_psi_audit and insert_audits\<close>

text \<open>
  Claim C5. When the remote audit call raises an \<open>HttpError\<close>, \<open>get_psi_audit\<close> logs
  it with its status code and error details and returns \<open>None\<close>; for every URL, no
  \<open>HttpError\<close> reaches its caller.
\<close>

theorem get_psi_audit_http_error:
  "(execute svc \<lparr>url = test_url, category = ''PERFORMANCE'', strategy = ''MOBILE''\<rparr>
       = Inl (HttpError status_code error_details) \<longrightarrow>
     get_psi_audit svc test_url w =
       (Inr JNone, w\<lparr>logged := logged w @ [LogPsiError status_code error_details]\<rparr>))
   \<and> (\<forall>s d. fst (get_psi_audit svc test_url w) \<noteq> Inl (HttpError s d))"
  by (auto simp: get_psi_audit_def split: sum.splits exn.splits)

theorem get_psi_audit_http_error_witness:
  "execute (stub_services (\<lambda>s. Inr sample_date) (\<lambda>r. Inl (HttpError 503 ''unavailable'')) [])
      \<lparr>url = ''https://example.com'', category = ''PERFORMANCE'', strategy = ''MOBILE''\<rparr>
     = (Inl (HttpError 503 ''unavailable'') :: exn + nat json)
   \<and> get_psi_audit (stub_services (\<lambda>s. Inr sample_date) (\<lambda>r. Inl (HttpError 503 ''unavailable'')) [])
       ''https://example.com'' sample_world
     = (Inr (JNone :: nat json), sample_world\<lparr>logged := [LogPsiError 503 ''unavailable'']\<rparr>)"
  using get_psi_audit_http_error
    [of "stub_services (\<lambda>s. Inr sample_date) (\<lambda>r. Inl (HttpError 503 ''unavailable'') :: exn + nat json) []"
        "''https://example.com''" 503 "''unavailable''" sample_world]
  by (simp add: stub_services_def sample_world_def)

text \<open>
  Claim C4 says that \<open>insert_audits\<close> raises if and only if the single-row insert
  call returns a non-empty collection of row errors, and that the error it raises
  carries the rejection detail. It is not so: without \<open>GOOGLE_CLOUD_PROJECT\<close> it
  raises \<open>KeyError\<close> before any call; when the table is not found the exception of
  \<open>get_table\<close> leaves it; and when the insert call itself raises, that exception
  leaves it. In none of the three has an insert call returned a row error, and none of
  the three exceptions is the \<open>RuntimeError\<close> with the rejection detail.
\<close>

theorem insert_audits_raises_without_row_errors:
  "fst (insert_audits (sample_services []) ''ds.audits'' sample_row
         (sample_world\<lparr>environ := [(''BIGQUERY_TABLE'', ''ds.audits'')]\<rparr>))
     = Inl (KeyError ''GOOGLE_CLOUD_PROJECT'')
   \<and> fst (insert_audits (sample_services []) ''ds.audits'' sample_row
         (sample_world\<lparr>warehouse := []\<rparr>))
     = Inl (OtherError ''NotFound'')
   \<and> fst (insert_rows (sample_services []) ''proj.ds.audits'' [sample_row]
         (warehouse sample_world))
     = Inr []
   \<and> fst (insert_rows (raising_insert_services ValueError) ''proj.ds.audits'' [sample_row]
         (warehouse sample_world))
     = Inl ValueError
   \<and> fst (insert_audits (raising_insert_services ValueError) ''ds.audits'' sample_row sample_world)
     = Inl ValueError"
proof (intro conjI)
  show "fst (insert_audits (sample_services []) ''ds.audits'' sample_row
         (sample_world\<lparr>environ := [(''BIGQUERY_TABLE'', ''ds.audits'')]\<rparr>))
     = Inl (KeyError ''GOOGLE_CLOUD_PROJECT'')"
    by (simp add: insert_audits_no_project)
  show "fst (insert_audits (sample_services []) ''ds.audits'' sample_row
         (sample_world\<lparr>warehouse := []\<rparr>))
     = Inl (OtherError ''NotFound'')"
    by (simp add: insert_audits_no_table)
  show "fst (insert_rows (sample_services []) ''proj.ds.audits'' [sample_row]
         (warehouse sample_world))
     = Inr []"
    by (simp add: sample_services_def stub_insert_rows_def)
  show "fst (insert_rows (raising_insert_services ValueError) ''proj.ds.audits'' [sample_row]
         (warehouse sample_world))
     = Inl ValueError"
    by (simp add: raising_insert_services_def)
  show "fst (insert_audits (raising_insert_services ValueError) ''ds.audits'' sample_row sample_world)
     = Inl ValueError"
    by (simp add: insert_audits_insert_raises)
qed

text \<open>
  Claim C4, amended. When \<open>GOOGLE_CLOUD_PROJECT\<close> is set, \<open>get_table\<close> has returned a
  table and the single-row insert call has returned its collection of row errors,
  \<open>insert_audits\<close> raises if and only if that collection is not empty; the error it
  then raises is a \<open>RuntimeError\<close> whose message contains the rendering of the returned
  errors; with an empty collection it returns normally.
\<close>

theorem insert_audits_raises_iff:
  assumes "map_of (environ w) ''GOOGLE_CLOUD_PROJECT'' = Some project_name"
    and "get_table svc (project_name @ ''.'' @ table) (warehouse w) = Inr bq_table"
    and "insert_rows svc bq_table [audit_row] (warehouse w) = (Inr errors, wh)"
  shows "((\<exists>e. fst (insert_audits svc table audit_row w) = Inl e) \<longleftrightarrow> errors \<noteq> [])
    \<and> (errors \<noteq> [] \<longrightarrow>
         (\<exists>before after. fst (insert_audits svc table audit_row w)
            = Inl (RuntimeError (before @ str_errors svc errors @ after))))
    \<and> (errors = [] \<longrightarrow> fst (insert_audits svc table audit_row w) = Inr ())"
proof -
  have ne: "errors \<noteq> [] \<Longrightarrow> fst (insert_audits svc table audit_row w)
      = Inl (RuntimeError (''Failed to write all rows to bigquery: '' @ str_errors svc errors @ ''.''))"
    using assms by (simp add: insert_audits_def)
  have e: "errors = [] \<Longrightarrow> fst (insert_audits svc table audit_row w) = Inr ()"
    using assms by (simp add: insert_audits_def)
  show ?thesis
  proof (cases "errors = []")
    case True
    with e show ?thesis by simp
  next
    case False
    with ne show ?thesis by blast
  qed
qed

theorem insert_audits_raises_iff_witness:
  "(\<exists>before after.
      fst (insert_audits (sample_services [sample_rejection]) ''ds.audits'' sample_row sample_world)
        = Inl (RuntimeError (before @ py_str_list [sample_rejection] @ after)))
   \<and> fst (insert_audits (sample_services []) ''ds.audits'' sample_row sample_world) = Inr ()"
proof -
  let ?bad = "sample_services [sample_rejection]"
  let ?good = "sample_services []"
  have 1: "insert_rows ?bad ''proj.ds.audits'' [sample_row] (warehouse sample_world)
      = (Inr [sample_rejection], warehouse sample_world)"
    by (simp add: sample_services_def stub_insert_rows_def)
  have 2: "insert_rows ?good ''proj.ds.audits'' [sample_row] (warehouse sample_world)
      = (Inr [], AList.map_entry ''proj.ds.audits'' (\<lambda>old. old @ [sample_row]) (warehouse sample_world))"
    by (simp add: sample_services_def stub_insert_rows_def)
  have g: "get_table ?bad (''proj'' @ ''.'' @ ''ds.audits'') (warehouse sample_world) = Inr ''proj.ds.audits''"
    "get_table ?good (''proj'' @ ''.'' @ ''ds.audits'') (warehouse sample_world) = Inr ''proj.ds.audits''"
    by (simp_all only: sample_services_def stub_sel stub_get_table_sample)
  from insert_audits_raises_iff [OF sample_world_sel(1) g(1) 1]
    insert_audits_raises_iff [OF sample_world_sel(1) g(2) 2]
  show ?thesis by (simp add: sample_services_def)
qed


section \<open>Properties of the submit handler\<close>

text \<open>
  Claim C9. The handler catches only \<open>ValueError\<close> and \<open>RuntimeError\<close>, and only
  around \<open>insert_audits\<close>. Whatever \<open>extract_audits\<close> raises leaves the handler as it
  is, with no state rendered: a \<open>KeyError\<close> for a missing field, a parse error, and the
  \<open>TypeError\<close> that follows when \<open>get_psi_audit\<close> has turned an \<open>HttpError\<close> into
  \<open>None\<close>. An exception of \<open>insert_audits\<close> of any other class leaves it too.
\<close>

theorem submit_test_extraction_propagates:
  assumes form: "map_of form ''test_url'' = Some test_url"
  shows "(\<forall>psi_object w1 e.
            get_psi_audit svc test_url w = (Inr psi_object, w1)
            \<and> extract_audits (strptime svc) psi_object = Inl e
            \<longrightarrow> submit_test svc form w = (Inl e, w1))
    \<and> (\<forall>s d.
            execute svc \<lparr>url = test_url, category = ''PERFORMANCE'', strategy = ''MOBILE''\<rparr>
              = Inl (HttpError s d)
            \<longrightarrow> submit_test svc form w
                  = (Inl TypeError, w\<lparr>logged := logged w @ [LogPsiError s d]\<rparr>))
    \<and> (\<forall>psi_object w1 audit_row bq_table err w2.
            get_psi_audit svc test_url w = (Inr psi_object, w1)
            \<and> extract_audits (strptime svc) psi_object = Inr audit_row
            \<and> map_of (environ w1) ''BIGQUERY_TABLE'' = Some bq_table
            \<and> insert_audits svc bq_table audit_row w1 = (Inl err, w2)
            \<and> \<not> is_ValueError_or_RuntimeError err
            \<longrightarrow> submit_test svc form w = (Inl err, w2))"
proof (intro conjI allI impI)
  fix psi_object w1 e
  assume "get_psi_audit svc test_url w = (Inr psi_object, w1)
      \<and> extract_audits (strptime svc) psi_object = Inl e"
  then show "submit_test svc form w = (Inl e, w1)"
    by (simp add: submit_test_def form)
next
  fix s d
  assume "execute svc \<lparr>url = test_url, category = ''PERFORMANCE'', strategy = ''MOBILE''\<rparr>
      = Inl (HttpError s d)"
  from get_psi_audit_HttpError [OF this]
  show "submit_test svc form w = (Inl TypeError, w\<lparr>logged := logged w @ [LogPsiError s d]\<rparr>)"
    by (simp add: submit_test_def form extract_audits_None)
next
  fix psi_object w1 audit_row bq_table err w2
  assume "get_psi_audit svc test_url w = (Inr psi_object, w1)
      \<and> extract_audits (strptime svc) psi_object = Inr audit_row
      \<and> map_of (environ w1) ''BIGQUERY_TABLE'' = Some bq_table
      \<and> insert_audits svc bq_table audit_row w1 = (Inl err, w2)
      \<and> \<not> is_ValueError_or_RuntimeError err"
  then show "submit_test svc form w = (Inl err, w2)"
    by (simp add: submit_test_def form)
qed

theorem submit_test_extraction_propagates_witness:
  "submit_test (answering_services (JDict [])) sample_form sample_world
     = (Inl (KeyError ''analysisUTCTimestamp''), sample_world)
   \<and> submit_test (failing_services (HttpError 503 ''unavailable'')) sample_form sample_world
     = (Inl TypeError, sample_world\<lparr>logged := [LogPsiError 503 ''unavailable'']\<rparr>)
   \<and> submit_test (sample_services []) sample_form
       (sample_world\<lparr>environ := [(''BIGQUERY_TABLE'', ''ds.audits'')]\<rparr>)
     = (Inl (KeyError ''GOOGLE_CLOUD_PROJECT''),
        sample_world\<lparr>environ := [(''BIGQUERY_TABLE'', ''ds.audits'')]\<rparr>)"
proof (intro conjI)
  have "get_psi_audit (answering_services (JDict [])) ''https://example.com'' sample_world
      = (Inr (JDict []), sample_world)"
    by (simp add: answering_services_def get_psi_audit_Inr)
  moreover have "extract_audits (strptime (answering_services (JDict []))) (JDict [])
      = Inl (KeyError ''analysisUTCTimestamp'')"
    by (simp add: extract_audits_def)
  ultimately show "submit_test (answering_services (JDict [])) sample_form sample_world
      = (Inl (KeyError ''analysisUTCTimestamp''), sample_world)"
    using submit_test_extraction_propagates
      [OF sample_form_sel, of "answering_services (JDict [])" sample_world]
    by blast
next
  have "execute (failing_services (HttpError 503 ''unavailable''))
      \<lparr>url = ''https://example.com'', category = ''PERFORMANCE'', strategy = ''MOBILE''\<rparr>
      = Inl (HttpError 503 ''unavailable'')"
    by (simp add: failing_services_def)
  with submit_test_extraction_propagates
    [OF sample_form_sel, of "failing_services (HttpError 503 ''unavailable'')" sample_world]
  have "submit_test (failing_services (HttpError 503 ''unavailable'')) sample_form sample_world
      = (Inl TypeError,
         sample_world\<lparr>logged := logged sample_world @ [LogPsiError 503 ''unavailable'']\<rparr>)"
    by blast
  then show "submit_test (failing_services (HttpError 503 ''unavailable'')) sample_form sample_world
      = (Inl TypeError, sample_world\<lparr>logged := [LogPsiError 503 ''unavailable'']\<rparr>)"
    by (simp add: sample_world_sel)
next
  let ?w = "sample_world\<lparr>environ := [(''BIGQUERY_TABLE'', ''ds.audits'')]\<rparr>"
  have "get_psi_audit (sample_services []) ''https://example.com'' ?w = (Inr sample_report, ?w)"
    by (simp add: sample_services_def get_psi_audit_Inr)
  moreover have "extract_audits (strptime (sample_services [])) sample_report = Inr sample_row"
    by (simp add: sample_services_def extract_audits_sample strptime_sample)
  moreover have "map_of (environ ?w) ''BIGQUERY_TABLE'' = Some ''ds.audits''"
    by simp
  moreover have "insert_audits (sample_services []) ''ds.audits'' sample_row ?w
      = (Inl (KeyError ''GOOGLE_CLOUD_PROJECT''), ?w)"
    by (rule insert_audits_no_project)
  moreover have "\<not> is_ValueError_or_RuntimeError (KeyError ''GOOGLE_CLOUD_PROJECT'')"
    by simp
  ultimately show "submit_test (sample_services []) sample_form ?w
      = (Inl (KeyError ''GOOGLE_CLOUD_PROJECT''), ?w)"
    using submit_test_extraction_propagates [OF sample_form_sel, of "sample_services []" ?w]
    by blast
qed

text \<open>
  Claim C3 says that every failure of extraction and of insertion is caught by the
  handler and rendered as \<open>failure\<close>. It is not so: a timestamp that does not parse
  makes \<open>extract_audits\<close> raise \<open>ValueError\<close>, which leaves the handler uncaught, and
  the \<open>KeyError\<close> that \<open>insert_audits\<close> raises without \<open>GOOGLE_CLOUD_PROJECT\<close> leaves
  it as well.
\<close>

theorem submit_test_extraction_escapes:
  "extract_audits strptime_at_format (JDict [(''analysisUTCTimestamp'', JStr ''yesterday'')])
     = (Inl ValueError :: exn + nat row)
   \<and> submit_test (answering_services (JDict [(''analysisUTCTimestamp'', JStr ''yesterday'')]))
       sample_form sample_world
     = (Inl ValueError, sample_world)
   \<and> fst (insert_audits (sample_services []) ''ds.audits'' sample_row
       (sample_world\<lparr>environ := [(''BIGQUERY_TABLE'', ''ds.audits'')]\<rparr>))
     = Inl (KeyError ''GOOGLE_CLOUD_PROJECT'')
   \<and> fst (submit_test (sample_services []) sample_form
       (sample_world\<lparr>environ := [(''BIGQUERY_TABLE'', ''ds.audits'')]\<rparr>))
     = Inl (KeyError ''GOOGLE_CLOUD_PROJECT'')"
proof (intro conjI)
  let ?psi = "JDict [(''analysisUTCTimestamp'', JStr ''yesterday'')] :: nat json"
  show e: "extract_audits strptime_at_format ?psi = Inl ValueError"
    by (simp add: extract_audits_def datetime_strptime_def strptime_yesterday)
  then show "submit_test (answering_services ?psi) sample_form sample_world
      = (Inl ValueError, sample_world)"
    by (simp add: submit_test_def sample_form_sel answering_services_def get_psi_audit_Inr)
  let ?w = "sample_world\<lparr>environ := [(''BIGQUERY_TABLE'', ''ds.audits'')]\<rparr>"
  show "fst (insert_audits (sample_services []) ''ds.audits'' sample_row ?w)
      = Inl (KeyError ''GOOGLE_CLOUD_PROJECT'')"
    by (simp add: insert_audits_no_project)
  have "get_psi_audit (sample_services []) ''https://example.com'' ?w = (Inr sample_report, ?w)"
    by (simp add: sample_services_def get_psi_audit_Inr)
  moreover have "extract_audits (strptime (sample_services [])) sample_report = Inr sample_row"
    by (simp add: sample_services_def extract_audits_sample strptime_sample)
  ultimately show "fst (submit_test (sample_services []) sample_form ?w)
      = Inl (KeyError ''GOOGLE_CLOUD_PROJECT'')"
    by (simp add: submit_test_def sample_form_sel insert_audits_no_project)
qed

text \<open>
  Claim C3, amended. Every \<open>ValueError\<close> or \<open>RuntimeError\<close> that \<open>insert_audits\<close>
  raises is caught by the handler, logged, and rendered as the state \<open>failure\<close>.
\<close>

theorem submit_test_catches_insert_errors:
  assumes "map_of form ''test_url'' = Some test_url"
    and "get_psi_audit svc test_url w = (Inr psi_object, w1)"
    and "extract_audits (strptime svc) psi_object = Inr audit_row"
    and "map_of (environ w1) ''BIGQUERY_TABLE'' = Some bq_table"
    and "insert_audits svc bq_table audit_row w1 = (Inl err, w2)"
    and "is_ValueError_or_RuntimeError err"
  shows "submit_test svc form w =
    (Inr (render_template ''index.html'' (Some ''failure'')),
     w2\<lparr>logged := logged w2 @ [LogException err]\<rparr>)"
  using assms by (simp add: submit_test_def)

theorem submit_test_catches_insert_errors_witness:
  "submit_test (sample_services [sample_rejection]) sample_form sample_world =
    (Inr (render_template ''index.html'' (Some ''failure'')),
     sample_world\<lparr>logged := [LogException
        (RuntimeError sample_message)]\<rparr>)"
proof -
  let ?svc = "sample_services [sample_rejection]"
  have 1: "get_psi_audit ?svc ''https://example.com'' sample_world = (Inr sample_report, sample_world)"
    by (simp add: sample_services_def get_psi_audit_Inr)
  have 2: "extract_audits (strptime ?svc) sample_report = Inr sample_row"
    by (simp add: sample_services_def extract_audits_sample strptime_sample)
  have 3: "is_ValueError_or_RuntimeError
      (RuntimeError sample_message)"
    by simp
  from submit_test_catches_insert_errors
    [OF sample_form_sel 1 2 sample_world_sel(2) insert_audits_sample_rejected 3]
  show ?thesis by (simp add: sample_world_sel)
qed

text \<open>
  Claim C6. For a submitted \<open>test_url\<close> whose audit call returns a complete,
  well-formed report: when the insert call reports no row error the handler renders
  \<open>success\<close>; when it reports at least one, the handler renders \<open>failure\<close> and logs
  the error. Whatever the request, a rendered state is one of these two.
\<close>

theorem submit_test_end_to_end:
  fixes svc :: "('n, 'e, 'h, 'w) services"
  assumes form: "map_of form ''test_url'' = Some test_url"
    and exec: "execute svc \<lparr>url = test_url, category = ''PERFORMANCE'', strategy = ''MOBILE''\<rparr>
      = Inr psi"
    and complete: "complete_report (strptime svc) psi"
    and row: "extract_audits (strptime svc) psi = Inr audit_row"
    and env_table: "map_of (environ w) ''BIGQUERY_TABLE'' = Some table"
    and env_project: "map_of (environ w) ''GOOGLE_CLOUD_PROJECT'' = Some project_name"
    and tbl: "get_table svc (project_name @ ''.'' @ table) (warehouse w) = Inr bq_table"
    and ins: "insert_rows svc bq_table [audit_row] (warehouse w) = (Inr errors, wh)"
  shows "(errors = [] \<longrightarrow>
      submit_test svc form w =
        (Inr (render_template ''index.html'' (Some ''success'')), w\<lparr>warehouse := wh\<rparr>))
    \<and> (errors \<noteq> [] \<longrightarrow>
      submit_test svc form w =
        (Inr (render_template ''index.html'' (Some ''failure'')),
         w\<lparr>warehouse := wh,
           logged := logged w @ [LogException (RuntimeError
             (''Failed to write all rows to bigquery: '' @ str_errors svc errors @ ''.''))]\<rparr>))
    \<and> (\<forall>(svc' :: ('n, 'e, 'h, 'w) services) form' w' r w''.
          submit_test svc' form' w' = (Inr r, w'') \<longrightarrow>
          r = render_template ''index.html'' (Some ''success'')
          \<or> r = render_template ''index.html'' (Some ''failure''))"
proof (intro conjI impI allI)
  note psi = get_psi_audit_Inr [OF exec, of w]
  assume "errors = []"
  with insert_audits_accepted [OF env_project tbl] ins
  have "insert_audits svc table audit_row w = (Inr (), w\<lparr>warehouse := wh\<rparr>)" by simp
  then show "submit_test svc form w =
      (Inr (render_template ''index.html'' (Some ''success'')), w\<lparr>warehouse := wh\<rparr>)"
    by (simp add: submit_test_def form psi row env_table)
next
  note psi = get_psi_audit_Inr [OF exec, of w]
  assume "errors \<noteq> []"
  from insert_audits_rejected [OF env_project tbl ins this]
  show "submit_test svc form w =
      (Inr (render_template ''index.html'' (Some ''failure'')),
       w\<lparr>warehouse := wh,
         logged := logged w @ [LogException (RuntimeError
           (''Failed to write all rows to bigquery: '' @ str_errors svc errors @ ''.''))]\<rparr>)"
    by (simp add: submit_test_def form psi row env_table)
next
  fix svc' :: "('n, 'e, 'h, 'w) services" and form' w' r w''
  assume "submit_test svc' form' w' = (Inr r, w'')"
  then show "r = render_template ''index.html'' (Some ''success'')
      \<or> r = render_template ''index.html'' (Some ''failure'')"
    by (rule submit_test_renders)
qed

theorem submit_test_end_to_end_witness:
  "submit_test (sample_services []) sample_form sample_world =
     (Inr (render_template ''index.html'' (Some ''success'')),
      sample_world\<lparr>warehouse := [(''proj.ds.audits'', [sample_row])]\<rparr>)
   \<and> submit_test (sample_services [sample_rejection]) sample_form sample_world =
     (Inr (render_template ''index.html'' (Some ''failure'')),
      sample_world\<lparr>logged := [LogException
        (RuntimeError sample_message)]\<rparr>)"
proof
  have ins: "insert_rows (sample_services []) ''proj.ds.audits'' [sample_row] (warehouse sample_world)
      = (Inr [], [(''proj.ds.audits'', [sample_row])])"
    by (simp add: sample_services_def stub_insert_rows_def sample_world_sel)
  from submit_test_end_to_end
    [OF sample_form_sel sample_services_facts(1,3,2) sample_world_sel(2,1)
      sample_services_facts(4) ins]
  show "submit_test (sample_services []) sample_form sample_world =
     (Inr (render_template ''index.html'' (Some ''success'')),
      sample_world\<lparr>warehouse := [(''proj.ds.audits'', [sample_row])]\<rparr>)"
    by simp
next
  let ?svc = "sample_services [sample_rejection]"
  have ins: "insert_rows ?svc ''proj.ds.audits'' [sample_row] (warehouse sample_world)
      = (Inr [sample_rejection], warehouse sample_world)"
    by (simp add: sample_services_def stub_insert_rows_def)
  from submit_test_end_to_end
    [OF sample_form_sel sample_services_facts(1,3,2) sample_world_sel(2,1)
      sample_services_facts(4) ins]
  show "submit_test ?svc sample_form sample_world =
     (Inr (render_template ''index.html'' (Some ''failure'')),
      sample_world\<lparr>logged := [LogException
        (RuntimeError sample_message)]\<rparr>)"
    unfolding sample_services_message by (simp add: sample_world_sel(4))
qed

text \<open>
  Claim C7. \<open>insert_audits\<close> addresses the table named by \<open>GOOGLE_CLOUD_PROJECT\<close>, a
  dot and the given table name, and sends the row as a batch of one: against the stub
  warehouse, a row made by \<open>extract_audits\<close> is appended to that table, once and
  unchanged, and nothing else changes.
\<close>

theorem insert_audits_appends_row:
  assumes row: "extract_audits sp psi = Inr audit_row"
    and env: "map_of (environ w) ''GOOGLE_CLOUD_PROJECT'' = Some project_name"
    and tbl: "map_of (warehouse w) (project_name @ ''.'' @ table) = Some rows"
  shows "\<exists>w'. insert_audits (stub_services sp exec []) table audit_row w = (Inr (), w')
    \<and> map_of (warehouse w') (project_name @ ''.'' @ table) = Some (rows @ [audit_row])
    \<and> (\<forall>t. t \<noteq> project_name @ ''.'' @ table \<longrightarrow>
          map_of (warehouse w') t = map_of (warehouse w) t)
    \<and> map fst (warehouse w') = map fst (warehouse w)
    \<and> environ w' = environ w \<and> logged w' = logged w"
proof -
  let ?name = "project_name @ ''.'' @ table"
  let ?wh = "AList.map_entry ?name (\<lambda>old. old @ [audit_row]) (warehouse w)"
  from tbl have "?name \<in> set (map fst (warehouse w))"
    by (auto dest: map_of_SomeD intro: rev_image_eqI)
  then have g: "get_table (stub_services sp exec []) ?name (warehouse w) = Inr ?name"
    by (simp add: stub_get_table_def)
  have i: "insert_rows (stub_services sp exec []) ?name [audit_row] (warehouse w) = (Inr [], ?wh)"
    by (simp add: stub_insert_rows_def)
  have "insert_audits (stub_services sp exec []) table audit_row w = (Inr (), w\<lparr>warehouse := ?wh\<rparr>)"
    by (rule insert_audits_accepted [OF env g i])
  moreover have "map_of ?wh ?name = Some (rows @ [audit_row])"
    using tbl by (simp add: map_of_map_entry)
  moreover have "\<forall>t. t \<noteq> ?name \<longrightarrow> map_of ?wh t = map_of (warehouse w) t"
    by (simp add: map_of_map_entry)
  moreover have "map fst ?wh = map fst (warehouse w)"
    by (rule map_fst_map_entry)
  ultimately show ?thesis by simp
qed

theorem insert_audits_appends_row_witness:
  "extract_audits strptime_at_format sample_report = Inr sample_row
   \<and> (\<exists>w'. insert_audits (sample_services []) ''ds.audits'' sample_row sample_world = (Inr (), w')
      \<and> map_of (warehouse w') ''proj.ds.audits'' = Some [sample_row]
      \<and> map fst (warehouse w') = [''proj.ds.audits'']
      \<and> environ w' = environ sample_world \<and> logged w' = [])"
proof -
  have row: "extract_audits strptime_at_format sample_report = Inr sample_row"
    by (simp add: extract_audits_sample strptime_sample)
  have tbl: "map_of (warehouse sample_world) (''proj'' @ ''.'' @ ''ds.audits'') = Some []"
    by (simp add: sample_world_sel)
  from insert_audits_appends_row [OF row sample_world_sel(1) tbl, of "\<lambda>r. Inr sample_report"] row
  show ?thesis
    by (auto simp: sample_services_def sample_world_sel(3,4))
qed

section \<open>The timestamp\<close>




section \<open>The input is not written to\<close>

text \<open>
  Claim C10. \<open>extract_audits\<close> never mutates its input. Whatever the store and the
  argument, and whether the call returns or raises, every object that was in the store
  before the call is the same after it, so that every read of the input and of what
  it refers to gives what it gave before; the row that is returned is a dictionary at a
  new address.
\<close>

theorem extract_audits_st_frame:
  assumes run: "extract_audits_st sp psi_json h = (r, h')"
  shows "take (length h) h' = h
    \<and> (\<forall>a k. a < length h \<longrightarrow> getitem_st h' (PRef a) k = getitem_st h (PRef a) k)
    \<and> (\<forall>a. r = Inr a \<longrightarrow> a = length h \<and> a < length h' \<and> (\<exists>row. h' ! a = PyDict row))"
proof -
  let ?tr = "length h"
  let ?h1 = "h @ [PyDict []]"
  define kept where "kept = (\<lambda>x :: 'a store.
    take ?tr x = h \<and> length x = Suc ?tr \<and> (\<exists>row. x ! ?tr = PyDict row))"
  have k1: "kept ?h1"
    by (simp add: kept_def)
  have kset: "kept (setitem_st x ?tr k v)" if "kept x" for x k v
  proof -
    from that obtain row where "x ! ?tr = PyDict row"
      by (auto simp: kept_def)
    from setitem_st_dict [OF this] that show ?thesis
      by (simp add: kept_def setitem_st_frame)
  qed
  have kloop: "kept y" if "kept x" "extract_loop_st ks psi_json ?tr x = (res, y)" for x y ks res
  proof -
    from that(1) obtain row where "x ! ?tr = PyDict row"
      by (auto simp: kept_def)
    from extract_loop_st_dict [OF that(2) this] extract_loop_st_frame [OF that(2) order_refl] that(1)
    show ?thesis by (simp add: kept_def)
  qed
  have res: "kept h' \<and> (\<forall>a. r = Inr a \<longrightarrow> a = ?tr)"
  proof (cases "getitem_st ?h1 psi_json ''analysisUTCTimestamp''")
    case (Inl e)
    with run k1 show ?thesis
      by (auto simp: extract_audits_st_def new_dict_def)
  next
    case ts: (Inr ts)
    show ?thesis
    proof (cases "datetime_strptime_st sp ts")
      case (Inl e)
      with run k1 ts show ?thesis
        by (auto simp: extract_audits_st_def new_dict_def)
    next
      case d: (Inr d)
      let ?h2 = "setitem_st ?h1 ?tr ''date'' (PDate d)"
      have k2: "kept ?h2" by (rule kset [OF k1])
      show ?thesis
      proof (cases "getitem_st ?h2 psi_json ''lighthouseResult''")
        case (Inl e)
        with run k2 ts d show ?thesis
          by (auto simp: extract_audits_st_def new_dict_def)
      next
        case lr: (Inr lr)
        show ?thesis
        proof (cases "getitem_st ?h2 lr ''finalUrl''")
          case (Inl e)
          with run k2 ts d lr show ?thesis
            by (auto simp: extract_audits_st_def new_dict_def)
        next
          case u: (Inr u)
          let ?h3 = "setitem_st ?h2 ?tr ''url'' u"
          have k3: "kept ?h3" by (rule kset [OF k2])
          obtain res y where l: "extract_loop_st (map fst audits) psi_json ?tr ?h3 = (res, y)"
            by (cases "extract_loop_st (map fst audits) psi_json ?tr ?h3") blast
          from kloop [OF k3 l] have ky: "kept y" .
          from run ts d lr u l have "h' = y \<and> (\<forall>a. r = Inr a \<longrightarrow> a = ?tr)"
            by (cases res) (auto simp: extract_audits_st_def new_dict_def)
          with ky show ?thesis by simp
        qed
      qed
    qed
  qed
  then have t: "take ?tr h' = h" and l: "length h' = Suc ?tr"
    and d: "\<exists>row. h' ! ?tr = PyDict row"
    by (simp_all add: kept_def)
  have "getitem_st h' (PRef a) k = getitem_st h (PRef a) k" if "a < ?tr" for a k
  proof -
    from that t have "h' ! a = h ! a"
      by (metis nth_take)
    with that l show ?thesis by simp
  qed
  then have g: "\<forall>a k. a < ?tr \<longrightarrow> getitem_st h' (PRef a) k = getitem_st h (PRef a) k"
    by blast
  from res l d have n: "\<forall>a. r = Inr a \<longrightarrow> a = ?tr \<and> a < length h' \<and> (\<exists>row. h' ! a = PyDict row)"
    by auto
  from t g n show ?thesis by blast
qed

theorem extract_audits_st_frame_witness:
  "fst (extract_audits_st strptime_at_format sample_ref sample_store) = Inr (length sample_store)
   \<and> take (length sample_store)
       (snd (extract_audits_st strptime_at_format sample_ref sample_store)) = sample_store
   \<and> length sample_store
       < length (snd (extract_audits_st strptime_at_format sample_ref sample_store))
   \<and> (\<exists>row. snd (extract_audits_st strptime_at_format sample_ref sample_store)
         ! length sample_store = PyDict row)"
proof -
  let ?run = "extract_audits_st strptime_at_format sample_ref sample_store"
  have "?run = (fst ?run, snd ?run)" by simp
  from extract_audits_st_frame [OF this] sample_run sample_store_eval
  show ?thesis by simp
qed

end
